theory Spec2Isabelle
  imports Complex_Main "HOL-Library.Char_ord" "HOL-Library.List_Lexorder" "HOL-Library.Multiset"
begin

section \<open>JavaScript values\<close>

text \<open>
  The fields that TypeScript types as \<open>number\<close> hold whatever the caller, the cache or the
  remote row put there, so they are modelled as dynamically typed primitive values. A finite
  number is the rational it denotes and arithmetic on finite numbers is exact: rounding to a
  double, overflow to an infinity and the sign of zero are outside this model. Objects and
  arrays are not among the values. A string is a list of code units below 256.
\<close>

datatype jsnum = NaN | Infinity | NegInfinity | Num rat

datatype jsval = JUndefined | JNull | JBool bool | JNum jsnum | JStr string

text \<open>\<open>a * b\<close> on numbers.\<close>

fun js_mul :: "jsnum \<Rightarrow> jsnum \<Rightarrow> jsnum" where
  "js_mul NaN _ = NaN"
| "js_mul _ NaN = NaN"
| "js_mul (Num a) (Num b) = Num (a * b)"
| "js_mul (Num a) Infinity = (if a = 0 then NaN else if 0 < a then Infinity else NegInfinity)"
| "js_mul (Num a) NegInfinity = (if a = 0 then NaN else if 0 < a then NegInfinity else Infinity)"
| "js_mul Infinity (Num b) = (if b = 0 then NaN else if 0 < b then Infinity else NegInfinity)"
| "js_mul NegInfinity (Num b) = (if b = 0 then NaN else if 0 < b then NegInfinity else Infinity)"
| "js_mul Infinity Infinity = Infinity"
| "js_mul Infinity NegInfinity = NegInfinity"
| "js_mul NegInfinity Infinity = NegInfinity"
| "js_mul NegInfinity NegInfinity = Infinity"

text \<open>\<open>a + b\<close> on numbers.\<close>

fun js_add :: "jsnum \<Rightarrow> jsnum \<Rightarrow> jsnum" where
  "js_add NaN _ = NaN"
| "js_add _ NaN = NaN"
| "js_add (Num a) (Num b) = Num (a + b)"
| "js_add (Num a) Infinity = Infinity"
| "js_add (Num a) NegInfinity = NegInfinity"
| "js_add Infinity (Num b) = Infinity"
| "js_add NegInfinity (Num b) = NegInfinity"
| "js_add Infinity Infinity = Infinity"
| "js_add Infinity NegInfinity = NaN"
| "js_add NegInfinity Infinity = NaN"
| "js_add NegInfinity NegInfinity = NegInfinity"

text \<open>\<open>a < b\<close> on numbers: false as soon as one side is \<open>NaN\<close>.\<close>

fun js_lt :: "jsnum \<Rightarrow> jsnum \<Rightarrow> bool" where
  "js_lt NaN _ = False"
| "js_lt _ NaN = False"
| "js_lt (Num a) (Num b) = (a < b)"
| "js_lt (Num a) Infinity = True"
| "js_lt (Num a) NegInfinity = False"
| "js_lt Infinity _ = False"
| "js_lt NegInfinity (Num b) = True"
| "js_lt NegInfinity Infinity = True"
| "js_lt NegInfinity NegInfinity = False"

subsection \<open>Reading a number out of a string\<close>

text \<open>
  \<open>Number(s)\<close> on a string follows the grammar of ECMAScript's \<open>StringNumericLiteral\<close>:
  white space is trimmed, the empty string is 0, then come \<open>Infinity\<close> with an optional
  sign, a binary, octal or hexadecimal integer without sign, or a decimal literal with optional
  sign, fraction and exponent. Everything else is \<open>NaN\<close>.
\<close>

definition isStrWhiteSpace :: "char \<Rightarrow> bool" where
  "isStrWhiteSpace c = (of_char c \<in> {9, 10, 11, 12, 13, 32, 160 :: nat})"

definition trim :: "string \<Rightarrow> string" where
  "trim s = rev (dropWhile isStrWhiteSpace (rev (dropWhile isStrWhiteSpace s)))"

definition digitVal :: "char \<Rightarrow> nat option" where
  "digitVal c =
     (let n = of_char c :: nat in
      if 48 \<le> n \<and> n \<le> 57 then Some (n - 48)
      else if 97 \<le> n \<and> n \<le> 102 then Some (n - 87)
      else if 65 \<le> n \<and> n \<le> 70 then Some (n - 55)
      else None)"

definition isDigitOf :: "nat \<Rightarrow> char \<Rightarrow> bool" where
  "isDigitOf radix c = (case digitVal c of None \<Rightarrow> False | Some v \<Rightarrow> v < radix)"

definition digitsVal :: "nat \<Rightarrow> string \<Rightarrow> nat" where
  "digitsVal radix ds = foldl (\<lambda>acc c. acc * radix + (case digitVal c of None \<Rightarrow> 0 | Some v \<Rightarrow> v)) 0 ds"

definition allDigits :: "nat \<Rightarrow> string \<Rightarrow> bool" where
  "allDigits radix ds = (ds \<noteq> [] \<and> list_all (isDigitOf radix) ds)"

text \<open>The exponent part, if any: \<open>e\<close> or \<open>E\<close>, an optional sign and at least one digit.\<close>

definition exponentPart :: "string \<Rightarrow> int option" where
  "exponentPart s =
     (case s of
        [] \<Rightarrow> Some 0
      | c # r \<Rightarrow>
          if c = CHR ''e'' \<or> c = CHR ''E'' then
            (case r of
               [] \<Rightarrow> None
             | d # r' \<Rightarrow>
                 if d = CHR ''+'' then (if allDigits 10 r' then Some (int (digitsVal 10 r')) else None)
                 else if d = CHR ''-'' then (if allDigits 10 r' then Some (- int (digitsVal 10 r')) else None)
                 else (if allDigits 10 r then Some (int (digitsVal 10 r)) else None))
          else None)"

definition pow10 :: "int \<Rightarrow> rat" where
  "pow10 e = (if 0 \<le> e then 10 ^ nat e else 1 / 10 ^ nat (- e))"

text \<open>\<open>StrUnsignedDecimalLiteral\<close> without \<open>Infinity\<close>: the value, or \<open>None\<close>.\<close>

definition unsignedDecimal :: "string \<Rightarrow> rat option" where
  "unsignedDecimal s =
     (let ip = takeWhile (isDigitOf 10) s; r = dropWhile (isDigitOf 10) s in
      case r of
        c # r' \<Rightarrow>
          if c = CHR ''.'' then
            (let fp = takeWhile (isDigitOf 10) r'; r'' = dropWhile (isDigitOf 10) r' in
             if ip = [] \<and> fp = [] then None
             else (case exponentPart r'' of
                     None \<Rightarrow> None
                   | Some e \<Rightarrow>
                       Some ((of_nat (digitsVal 10 ip) + of_nat (digitsVal 10 fp) / 10 ^ length fp)
                             * pow10 e)))
          else if ip = [] then None
          else (case exponentPart r of
                  None \<Rightarrow> None
                | Some e \<Rightarrow> Some (of_nat (digitsVal 10 ip) * pow10 e))
      | [] \<Rightarrow> if ip = [] then None else Some (of_nat (digitsVal 10 ip)))"

definition nonDecimalInteger :: "string \<Rightarrow> rat option" where
  "nonDecimalInteger s =
     (case s of
        z # p # ds \<Rightarrow>
          if z \<noteq> CHR ''0'' then None
          else if (p = CHR ''x'' \<or> p = CHR ''X'') \<and> allDigits 16 ds then Some (of_nat (digitsVal 16 ds))
          else if (p = CHR ''o'' \<or> p = CHR ''O'') \<and> allDigits 8 ds then Some (of_nat (digitsVal 8 ds))
          else if (p = CHR ''b'' \<or> p = CHR ''B'') \<and> allDigits 2 ds then Some (of_nat (digitsVal 2 ds))
          else None
      | _ \<Rightarrow> None)"

definition StringToNumber :: "string \<Rightarrow> jsnum" where
  "StringToNumber str =
     (let s = trim str in
      if s = [] then Num 0
      else if s = ''Infinity'' \<or> s = ''+Infinity'' then Infinity
      else if s = ''-Infinity'' then NegInfinity
      else (case nonDecimalInteger s of
              Some v \<Rightarrow> Num v
            | None \<Rightarrow>
                (case s of
                   c # r \<Rightarrow>
                     if c = CHR ''+'' then (case unsignedDecimal r of None \<Rightarrow> NaN | Some v \<Rightarrow> Num v)
                     else if c = CHR ''-'' then (case unsignedDecimal r of None \<Rightarrow> NaN | Some v \<Rightarrow> Num (- v))
                     else (case unsignedDecimal s of None \<Rightarrow> NaN | Some v \<Rightarrow> Num v)
                 | [] \<Rightarrow> Num 0)))"

subsection \<open>Conversions and operators\<close>

text \<open>\<open>Number(v)\<close>.\<close>

fun Number :: "jsval \<Rightarrow> jsnum" where
  "Number JUndefined = NaN"
| "Number JNull = Num 0"
| "Number (JBool b) = (if b then Num 1 else Num 0)"
| "Number (JNum n) = n"
| "Number (JStr s) = StringToNumber s"

text \<open>Truthiness, as \<open>&&\<close>, \<open>||\<close> and \<open>?:\<close> test it.\<close>

fun truthy_num :: "jsnum \<Rightarrow> bool" where
  "truthy_num NaN = False"
| "truthy_num (Num a) = (a \<noteq> 0)"
| "truthy_num _ = True"

fun truthy :: "jsval \<Rightarrow> bool" where
  "truthy JUndefined = False"
| "truthy JNull = False"
| "truthy (JBool b) = b"
| "truthy (JNum n) = truthy_num n"
| "truthy (JStr s) = (s \<noteq> [])"

text \<open>\<open>n || 0\<close> on a number.\<close>

definition or0 :: "jsnum \<Rightarrow> jsnum" where
  "or0 n = (if truthy_num n then n else Num 0)"

text \<open>\<open>v > 0\<close>: the right side is a number, so the left side is converted to one.\<close>

definition gt0 :: "jsval \<Rightarrow> bool" where
  "gt0 v = js_lt (Num 0) (Number v)"

text \<open>\<open>v ?? 0\<close>: only \<open>null\<close> and \<open>undefined\<close> give way to the default.\<close>

fun nullish0 :: "jsval \<Rightarrow> jsval" where
  "nullish0 JUndefined = JNum (Num 0)"
| "nullish0 JNull = JNum (Num 0)"
| "nullish0 v = v"

section \<open>Data model\<close>

datatype status = pending | completed | aborted | cancelled

text \<open>
  \<open>Delivery\<close> and \<open>Draft = Omit<Delivery, 'id'> & { id?: string }\<close> differ in the
  identifier only, so both are instances of one record: a delivery carries a string, a draft
  an optional one. The fields \<open>id\<close> and \<open>notes\<close> are written \<open>id'\<close> and \<open>notes'\<close>.
\<close>

record 'i DeliveryOf =
  id' :: 'i
  dateISO :: string
  carMake :: string
  carModel :: string
  reg :: string
  pickup :: string
  dropoff :: string
  distanceKm :: jsval
  ratePerKm :: jsval
  fixedFee :: jsval
  transportExpense :: jsval
  earnings :: jsval
  status :: status
  notes' :: "string option"

type_synonym Delivery = "string DeliveryOf"
type_synonym Draft = "string option DeliveryOf"

text \<open>
  The wire row. \<open>DeliveryRow\<close> has the identifier; the payload of an upsert
  (\<open>Partial<DeliveryRow> & { user_id: string }\<close>, as \<open>draftToRow\<close> fills it) may lack it.
  Fields whose names would repeat a field of \<open>DeliveryOf\<close> carry the suffix \<open>_row\<close>.
\<close>

record 'i DeliveryRowOf =
  id_row :: 'i
  user_id :: string
  date_iso :: string
  car_make :: "string option"
  car_model :: "string option"
  reg_row :: "string option"
  pickup_row :: "string option"
  dropoff_row :: "string option"
  distance_km :: jsval
  rate_per_km :: jsval
  fixed_fee :: jsval
  transport_expense :: jsval
  earnings_row :: jsval
  status_row :: "status option"
  notes_row :: "string option"

type_synonym DeliveryRow = "string DeliveryRowOf"
type_synonym Payload = "string option DeliveryRowOf"

text \<open>\<open>s || ''\<close> on a nullable string.\<close>

definition orEmpty :: "string option \<Rightarrow> string" where
  "orEmpty s = (case s of None \<Rightarrow> [] | Some t \<Rightarrow> t)"

definition rowToDelivery :: "DeliveryRow \<Rightarrow> Delivery" where
  "rowToDelivery r =
     \<lparr> id' = id_row r,
       dateISO = date_iso r,
       carMake = orEmpty (car_make r),
       carModel = orEmpty (car_model r),
       reg = orEmpty (reg_row r),
       pickup = orEmpty (pickup_row r),
       dropoff = orEmpty (dropoff_row r),
       distanceKm = JNum (Number (nullish0 (distance_km r))),
       ratePerKm = JNum (Number (nullish0 (rate_per_km r))),
       fixedFee = JNum (Number (nullish0 (fixed_fee r))),
       transportExpense = JNum (Number (nullish0 (transport_expense r))),
       earnings = JNum (Number (nullish0 (earnings_row r))),
       status = (case status_row r of None \<Rightarrow> pending | Some s \<Rightarrow> s),
       notes' = Some (orEmpty (notes_row r)) \<rparr>"

text \<open>
  \<open>draftToRow(input, userId, computed, id)\<close>: the identifier goes into the payload only
  when it is a non-empty string (\<open>...(id ? { id } : {})\<close>).
\<close>

definition draftToRow :: "Draft \<Rightarrow> string \<Rightarrow> jsval \<Rightarrow> string option \<Rightarrow> Payload" where
  "draftToRow input userId computed ident =
     \<lparr> id_row = (case ident of None \<Rightarrow> None | Some i \<Rightarrow> if i = [] then None else Some i),
       user_id = userId,
       date_iso = dateISO input,
       car_make = Some (carMake input),
       car_model = Some (carModel input),
       reg_row = Some (reg input),
       pickup_row = Some (pickup input),
       dropoff_row = Some (dropoff input),
       distance_km = JNum (or0 (Number (distanceKm input))),
       rate_per_km = JNum (or0 (Number (ratePerKm input))),
       fixed_fee = JNum (or0 (Number (fixedFee input))),
       transport_expense = JNum (or0 (Number (transportExpense input))),
       earnings_row = computed,
       status_row = Some (status input),
       notes_row = Some (orEmpty (notes' input)) \<rparr>"

section \<open>Sorting\<close>

text \<open>
  \<open>Array.prototype.sort\<close> with a comparator is stable (ECMAScript 2019). For a consistent
  comparator every stable sort returns the same array, so insertion sort stands for it: an
  element goes in front of the first element it does not compare greater than.
\<close>

fun insert_cmp :: "('a \<Rightarrow> 'a \<Rightarrow> int) \<Rightarrow> 'a \<Rightarrow> 'a list \<Rightarrow> 'a list" where
  "insert_cmp cmp x [] = [x]"
| "insert_cmp cmp x (y # ys) = (if cmp x y \<le> 0 then x # y # ys else y # insert_cmp cmp x ys)"

fun array_sort :: "('a \<Rightarrow> 'a \<Rightarrow> int) \<Rightarrow> 'a list \<Rightarrow> 'a list" where
  "array_sort cmp [] = []"
| "array_sort cmp (x # xs) = insert_cmp cmp x (array_sort cmp xs)"

text \<open>The comparator of \<open>sortByDateDesc\<close>; strings compare by code units, as in JavaScript.\<close>

definition byDateDesc :: "Delivery \<Rightarrow> Delivery \<Rightarrow> int" where
  "byDateDesc a b = (if dateISO a < dateISO b then 1 else if dateISO a > dateISO b then - 1 else 0)"

definition sortByDateDesc :: "Delivery list \<Rightarrow> Delivery list" where
  "sortByDateDesc list = array_sort byDateDesc list"

section \<open>Earnings\<close>

text \<open>
  The expression bound to \<open>computed\<close> at the head of \<open>upsertDelivery\<close>, which the
  specification calls \<open>computeEarnings(distance, rate, fixedFee, manualOverride)\<close>.
\<close>

definition computeEarnings :: "jsval \<Rightarrow> jsval \<Rightarrow> jsval \<Rightarrow> jsval \<Rightarrow> jsval" where
  "computeEarnings distance rate fee manualOverride =
     (if truthy manualOverride \<and> gt0 manualOverride then manualOverride
      else JNum (js_add (js_mul (or0 (Number distance)) (or0 (Number rate))) (or0 (Number fee))))"

definition computed :: "Draft \<Rightarrow> jsval" where
  "computed input = computeEarnings (distanceKm input) (ratePerKm input) (fixedFee input) (earnings input)"

section \<open>Local cache\<close>

text \<open>An error value; \<open>message\<close> is what \<open>e?.message\<close> reads.\<close>

datatype error = Error (message: "string option")

text \<open>
  The key-value store, reduced to the one key the program uses. Its calls can be rejected:
  \<open>faults\<close> lists the outcomes of the calls to come, \<open>Some e\<close> for a rejection with
  \<open>e\<close>, and a call beyond the list succeeds.
\<close>

record AsyncStorage =
  item :: "string option"
  faults :: "error option list"

definition next_fault :: "AsyncStorage \<Rightarrow> error option \<times> AsyncStorage" where
  "next_fault st = (case faults st of [] \<Rightarrow> (None, st) | f # fs \<Rightarrow> (f, st\<lparr>faults := fs\<rparr>))"

definition getItem :: "AsyncStorage \<Rightarrow> (error + string option) \<times> AsyncStorage" where
  "getItem st =
     (case next_fault st of
        (Some e, st') \<Rightarrow> (Inl e, st')
      | (None, st') \<Rightarrow> (Inr (item st'), st'))"

definition setItem :: "string \<Rightarrow> AsyncStorage \<Rightarrow> (error + unit) \<times> AsyncStorage" where
  "setItem v st =
     (case next_fault st of
        (Some e, st') \<Rightarrow> (Inl e, st')
      | (None, st') \<Rightarrow> (Inr (), st'\<lparr>item := Some v\<rparr>))"

text \<open>
  What \<open>JSON.parse\<close> returns, as far as \<open>loadCache\<close> looks at it: an array, whose elements
  the program takes for deliveries without checking, or something else. \<open>None\<close> is the
  \<open>SyntaxError\<close>. \<open>JSON.parse\<close> and \<open>JSON.stringify\<close> are parameters of the model.
\<close>

datatype json = JArray "Delivery list" | JOther

definition loadCache :: "(string \<Rightarrow> json option) \<Rightarrow> AsyncStorage \<Rightarrow> (error + Delivery list) \<times> AsyncStorage" where
  "loadCache JSON_parse st =
     (case getItem st of
        (Inl e, st') \<Rightarrow> (Inl e, st')
      | (Inr raw, st') \<Rightarrow>
          (case raw of
             None \<Rightarrow> (Inr [], st')
           | Some text \<Rightarrow>
               if text = [] then (Inr [], st')
               else (case JSON_parse text of
                       None \<Rightarrow> (Inr [], st')
                     | Some (JArray parsed) \<Rightarrow> (Inr parsed, st')
                     | Some JOther \<Rightarrow> (Inr [], st'))))"

definition saveCache :: "(Delivery list \<Rightarrow> string) \<Rightarrow> Delivery list \<Rightarrow> AsyncStorage \<Rightarrow> (error + unit) \<times> AsyncStorage" where
  "saveCache JSON_stringify list st = setItem (JSON_stringify list) st"

section \<open>Reconciliation\<close>

text \<open>
  The state the operations of \<open>Home\<close> read and write: the record set held in memory, the
  signed-in user's identifier (\<open>session?.user?.id\<close>), the key-value store and the notices
  shown so far (\<open>Alert.alert(title, message)\<close>). An operation sees the record set as it was
  when the operation started, since \<open>deliveries\<close> is a constant of the render that made the
  closure.
\<close>

record App =
  deliveries :: "Delivery list"
  session :: "string option"
  storage :: AsyncStorage
  alerts :: "(string \<times> string) list"

definition alert :: "string \<Rightarrow> error \<Rightarrow> string \<Rightarrow> App \<Rightarrow> App" where
  "alert title e fallback app =
     app\<lparr>alerts := alerts app @ [(title, case message e of None \<Rightarrow> fallback | Some m \<Rightarrow> m)]\<rparr>"

definition save :: "(Delivery list \<Rightarrow> string) \<Rightarrow> Delivery list \<Rightarrow> App \<Rightarrow> (error + unit) \<times> App" where
  "save JSON_stringify list app =
     (case saveCache JSON_stringify list (storage app) of (r, st') \<Rightarrow> (r, app\<lparr>storage := st'\<rparr>))"

text \<open>The effect that runs once at start: show the cache if it holds anything.\<close>

definition initialLoad :: "(string \<Rightarrow> json option) \<Rightarrow> App \<Rightarrow> (error + unit) \<times> App" where
  "initialLoad JSON_parse app =
     (case loadCache JSON_parse (storage app) of
        (Inl e, st') \<Rightarrow> (Inl e, app\<lparr>storage := st'\<rparr>)
      | (Inr cached, st') \<Rightarrow>
          (Inr (), if cached \<noteq> [] then app\<lparr>storage := st', deliveries := sortByDateDesc cached\<rparr>
                   else app\<lparr>storage := st'\<rparr>))"

text \<open>
  The remote store answers a call with an error or with rows; the answers are parameters.
  \<open>select userId\<close> is the query of \<open>fetchDeliveries\<close>.
\<close>

definition fetchDeliveries :: "(string \<Rightarrow> error + DeliveryRow list) \<Rightarrow> string \<Rightarrow> error + Delivery list" where
  "fetchDeliveries select userId =
     (case select userId of Inl e \<Rightarrow> Inl e | Inr data \<Rightarrow> Inr (map rowToDelivery data))"

definition syncFromRemote ::
  "(Delivery list \<Rightarrow> string) \<Rightarrow> (string \<Rightarrow> error + DeliveryRow list) \<Rightarrow> bool \<Rightarrow> App \<Rightarrow> App" where
  "syncFromRemote JSON_stringify select alertOnError app =
     (let catch = (\<lambda>e a. if alertOnError then alert ''Sync failed'' e ''Please try again later'' a else a) in
      case session app of
        None \<Rightarrow> app
      | Some userId \<Rightarrow>
          (case fetchDeliveries select userId of
             Inl e \<Rightarrow> catch e app
           | Inr remote \<Rightarrow>
               (let next = sortByDateDesc remote in
                case save JSON_stringify next (app\<lparr>deliveries := next\<rparr>) of
                  (Inl e, app') \<Rightarrow> catch e app'
                | (Inr _, app') \<Rightarrow> app')))"

text \<open>\<open>{ ...(input as Delivery), id, earnings: computed }\<close>\<close>

definition localRecord :: "Draft \<Rightarrow> string \<Rightarrow> jsval \<Rightarrow> Delivery" where
  "localRecord input ident earned =
     \<lparr> id' = ident,
       dateISO = dateISO input,
       carMake = carMake input,
       carModel = carModel input,
       reg = reg input,
       pickup = pickup input,
       dropoff = dropoff input,
       distanceKm = distanceKm input,
       ratePerKm = ratePerKm input,
       fixedFee = fixedFee input,
       transportExpense = transportExpense input,
       earnings = earned,
       status = status input,
       notes' = notes' input \<rparr>"

text \<open>
  The merge that \<open>upsertDelivery\<close> writes out on each of its three paths:
  \<open>sortByDateDesc([r, ...deliveries.filter((d) => d.id !== r.id)])\<close>.
\<close>

definition merge :: "Delivery \<Rightarrow> Delivery list \<Rightarrow> Delivery list" where
  "merge r list = sortByDateDesc (r # filter (\<lambda>d. id' d \<noteq> id' r) list)"

text \<open>
  The local write that \<open>upsertDelivery\<close> spells out twice, in its \<open>catch\<close> block and on
  the logged-out path: build the record from the draft, merge it into the record set the
  operation started with, show the result and save it.
\<close>

definition localWrite ::
  "(Delivery list \<Rightarrow> string) \<Rightarrow> Draft \<Rightarrow> string \<Rightarrow> jsval \<Rightarrow> Delivery list \<Rightarrow> App
     \<Rightarrow> (error + string) \<times> App" where
  "localWrite JSON_stringify input ident earned list a =
     (let local = localRecord input ident earned;
          next = merge local list
      in case save JSON_stringify next (a\<lparr>deliveries := next\<rparr>) of
           (Inl e, a') \<Rightarrow> (Inl e, a')
         | (Inr _, a') \<Rightarrow> (Inr ident, a'))"

text \<open>
  \<open>upsertDelivery(input)\<close>. \<open>uuidv4\<close> is the string the generator returns if it is called;
  \<open>upsert\<close> is the remote store's answer to \<open>.upsert(payload).select().single()\<close>. The result
  is the returned identifier, or the error the promise is rejected with.
\<close>

definition upsertDelivery ::
  "(Delivery list \<Rightarrow> string) \<Rightarrow> string \<Rightarrow> (Payload \<Rightarrow> error + DeliveryRow) \<Rightarrow> Draft \<Rightarrow> App
     \<Rightarrow> (error + string) \<times> App" where
  "upsertDelivery JSON_stringify uuidv4 upsert input app =
     (let earned = computed input;
          ident = (case id' input of None \<Rightarrow> uuidv4 | Some i \<Rightarrow> i)
      in case session app of
           Some userId \<Rightarrow>
             (let catch = (\<lambda>e a. localWrite JSON_stringify input ident earned (deliveries app)
                                   (alert ''Save failed'' e ''Unable to save to Supabase'' a)) in
              case upsert (draftToRow input userId earned (Some ident)) of
                Inl e \<Rightarrow> catch e app
              | Inr data \<Rightarrow>
                  (let saved = rowToDelivery data;
                       next = merge saved (deliveries app)
                   in case save JSON_stringify next (app\<lparr>deliveries := next\<rparr>) of
                        (Inl e, app') \<Rightarrow> catch e app'
                      | (Inr _, app') \<Rightarrow> (Inr (id' saved), app')))
         | None \<Rightarrow> localWrite JSON_stringify input ident earned (deliveries app) app)"

text \<open>
  \<open>deleteDelivery(id)\<close>. \<open>delete id userId\<close> is the remote store's answer to the delete,
  \<open>Some e\<close> for a failure.
\<close>

definition deleteDelivery ::
  "(Delivery list \<Rightarrow> string) \<Rightarrow> (string \<Rightarrow> string \<Rightarrow> error option) \<Rightarrow> string \<Rightarrow> App
     \<Rightarrow> (error + unit) \<times> App" where
  "deleteDelivery JSON_stringify delete ident app =
     (let app1 = (case session app of
                    None \<Rightarrow> app
                  | Some userId \<Rightarrow>
                      (case delete ident userId of
                         None \<Rightarrow> app
                       | Some e \<Rightarrow> alert ''Delete failed'' e ''Unable to delete in Supabase'' app));
          next = filter (\<lambda>d. id' d \<noteq> ident) (deliveries app)
      in save JSON_stringify next (app1\<lparr>deliveries := next\<rparr>))"

section \<open>Dates\<close>

text \<open>
  A \<open>Date\<close> is its time value, the milliseconds since 1970-01-01T00:00:00Z; \<open>new Date()\<close>
  is the device's current time \<open>now\<close>. The device's zone is \<open>tza\<close>, the milliseconds that
  local time is ahead of UTC, taken constant over the dates an operation touches. The
  calendar is ECMAScript's, the proleptic Gregorian one.
\<close>

definition msPerDay :: int where
  "msPerDay = 86400000"

definition Day :: "int \<Rightarrow> int" where
  "Day t = t div msPerDay"

definition TimeWithinDay :: "int \<Rightarrow> int" where
  "TimeWithinDay t = t mod msPerDay"

text \<open>Year, month (1 to 12) and day of the month of a day number.\<close>

definition civil_from_days :: "int \<Rightarrow> int \<times> int \<times> int" where
  "civil_from_days z0 =
     (let z = z0 + 719468;
          era = z div 146097;
          doe = z - era * 146097;
          yoe = (doe - doe div 1460 + doe div 36524 - doe div 146096) div 365;
          doy = doe - (365 * yoe + yoe div 4 - yoe div 100);
          mp = (5 * doy + 2) div 153;
          d = doy - (153 * mp + 2) div 5 + 1;
          m = (if mp < 10 then mp + 3 else mp - 9)
      in (yoe + era * 400 + (if m \<le> 2 then 1 else 0), m, d))"

text \<open>The day number of a date, the month counted from 1.\<close>

definition days_from_civil :: "int \<Rightarrow> int \<Rightarrow> int \<Rightarrow> int" where
  "days_from_civil y0 m d =
     (let y = (if m \<le> 2 then y0 - 1 else y0);
          era = y div 400;
          yoe = y - era * 400;
          doy = (153 * (if m > 2 then m - 3 else m + 9) + 2) div 5 + d - 1;
          doe = yoe * 365 + yoe div 4 - yoe div 100 + doy
      in era * 146097 + doe - 719468)"

text \<open>\<open>MakeDay(year, month, date)\<close>: the month counts from 0 and may lie outside 0 to 11.\<close>

definition MakeDay :: "int \<Rightarrow> int \<Rightarrow> int \<Rightarrow> int" where
  "MakeDay year month date = days_from_civil (year + month div 12) (month mod 12 + 1) 1 + date - 1"

definition YearFromTime :: "int \<Rightarrow> int" where
  "YearFromTime t = (case civil_from_days (Day t) of (y, m, d) \<Rightarrow> y)"

definition MonthFromTime :: "int \<Rightarrow> int" where
  "MonthFromTime t = (case civil_from_days (Day t) of (y, m, d) \<Rightarrow> m - 1)"

definition DateFromTime :: "int \<Rightarrow> int" where
  "DateFromTime t = (case civil_from_days (Day t) of (y, m, d) \<Rightarrow> d)"

definition WeekDay :: "int \<Rightarrow> int" where
  "WeekDay t = (Day t + 4) mod 7"

text \<open>A number in decimal, with leading zeros up to the given width.\<close>

definition pad :: "nat \<Rightarrow> int \<Rightarrow> string" where
  "pad w n = map (\<lambda>i. ''0123456789'' ! ((nat n div 10 ^ i) mod 10)) (rev [0..<w])"

text \<open>
  \<open>d.toISOString()\<close>: four digits for the years 0 to 9999, a sign and six digits otherwise.
\<close>

definition toISOString :: "int \<Rightarrow> string" where
  "toISOString t =
     (case civil_from_days (Day t) of
        (y, m, d) \<Rightarrow>
          (if 0 \<le> y \<and> y \<le> 9999 then pad 4 y
           else if y < 0 then CHR ''-'' # pad 6 (- y)
           else CHR ''+'' # pad 6 y)
          @ ''-'' @ pad 2 m @ ''-'' @ pad 2 d @ ''T''
          @ pad 2 (TimeWithinDay t div 3600000) @ '':''
          @ pad 2 (TimeWithinDay t div 60000 mod 60) @ '':''
          @ pad 2 (TimeWithinDay t div 1000 mod 60) @ ''.''
          @ pad 3 (TimeWithinDay t mod 1000) @ ''Z'')"

text \<open>\<open>function iso(d: Date) { return d.toISOString().slice(0, 10); }\<close>\<close>

definition iso :: "int \<Rightarrow> string" where
  "iso d = take 10 (toISOString d)"

text \<open>The local-time getters and setters that \<open>getWeekRange\<close> and \<open>filtered\<close> call.\<close>

definition getDay :: "int \<Rightarrow> int \<Rightarrow> int" where
  "getDay tza d = WeekDay (d + tza)"

definition getDate :: "int \<Rightarrow> int \<Rightarrow> int" where
  "getDate tza d = DateFromTime (d + tza)"

definition getMonth :: "int \<Rightarrow> int \<Rightarrow> int" where
  "getMonth tza d = MonthFromTime (d + tza)"

definition getFullYear :: "int \<Rightarrow> int \<Rightarrow> int" where
  "getFullYear tza d = YearFromTime (d + tza)"

definition setDate :: "int \<Rightarrow> int \<Rightarrow> int \<Rightarrow> int" where
  "setDate tza d date =
     MakeDay (YearFromTime (d + tza)) (MonthFromTime (d + tza)) date * msPerDay
       + TimeWithinDay (d + tza) - tza"

text \<open>\<open>new Date(year, month, date)\<close>: local midnight; a year from 0 to 99 means 1900 and later.\<close>

definition newDate :: "int \<Rightarrow> int \<Rightarrow> int \<Rightarrow> int \<Rightarrow> int" where
  "newDate tza year month date =
     MakeDay (if 0 \<le> year \<and> year \<le> 99 then 1900 + year else year) month date * msPerDay - tza"

definition getWeekRange :: "int \<Rightarrow> int \<Rightarrow> string \<times> string" where
  "getWeekRange tza date =
     (let d = date;
          day = (getDay tza d + 6) mod 7;
          monday = setDate tza d (getDate tza d - day);
          sunday = setDate tza monday (getDate tza monday + 6)
      in (iso monday, iso sunday))"

definition isWithin :: "string \<Rightarrow> string \<Rightarrow> string \<Rightarrow> bool" where
  "isWithin dISO startISO endISO = (dISO \<ge> startISO \<and> dISO \<le> endISO)"

section \<open>The list on screen\<close>

datatype dateFilter = all | today | week | month | custom

text \<open>The state \<open>filtered\<close> reads besides the record set.\<close>

record Filters =
  query :: string
  dateFilter :: dateFilter
  customFrom :: string
  customTo :: string

text \<open>\<open>toLowerCase\<close> on code units below 256.\<close>

definition toLowerCase :: "string \<Rightarrow> string" where
  "toLowerCase s =
     map (\<lambda>c. let n = of_char c :: nat in
               if (65 \<le> n \<and> n \<le> 90) \<or> (192 \<le> n \<and> n \<le> 222 \<and> n \<noteq> 215) then char_of (n + 32) else c) s"

text \<open>\<open>s.includes(q)\<close>, written \<open>includes'\<close>.\<close>

fun includes' :: "string \<Rightarrow> string \<Rightarrow> bool" where
  "includes' [] q = (q = [])"
| "includes' (c # cs) q = (take (length q) (c # cs) = q \<or> includes' cs q)"

text \<open>\<open>parts.join(' ')\<close>\<close>

fun join :: "string list \<Rightarrow> string" where
  "join [] = []"
| "join [p] = p"
| "join (p # ps) = p @ '' '' @ join ps"

definition filtered :: "Filters \<Rightarrow> int \<Rightarrow> int \<Rightarrow> Delivery list \<Rightarrow> Delivery list" where
  "filtered ui tza now list0 =
     (let q = toLowerCase (trim (query ui));
          list =
            (case dateFilter ui of
               today \<Rightarrow> (let todayISO = iso now in filter (\<lambda>d. dateISO d = todayISO) list0)
             | week \<Rightarrow>
                 (case getWeekRange tza now of
                    (startISO, endISO) \<Rightarrow> filter (\<lambda>d. isWithin (dateISO d) startISO endISO) list0)
             | month \<Rightarrow>
                 (let startISO = iso (newDate tza (getFullYear tza now) (getMonth tza now) 1);
                      endISO = iso (newDate tza (getFullYear tza now) (getMonth tza now + 1) 0)
                  in filter (\<lambda>d. isWithin (dateISO d) startISO endISO) list0)
             | custom \<Rightarrow>
                 if customFrom ui \<noteq> [] \<and> customTo ui \<noteq> []
                 then filter (\<lambda>d. isWithin (dateISO d) (customFrom ui) (customTo ui)) list0
                 else if customFrom ui \<noteq> [] then filter (\<lambda>d. dateISO d \<ge> customFrom ui) list0
                 else if customTo ui \<noteq> [] then filter (\<lambda>d. dateISO d \<le> customTo ui) list0
                 else list0
             | all \<Rightarrow> list0)
      in if q = [] then list
         else filter (\<lambda>d. includes'
                (toLowerCase (join [carMake d, carModel d, reg d, pickup d, dropoff d, orEmpty (notes' d)])) q) list)"

text \<open>\<open>emptyDraft()\<close>, the draft a new form starts from.\<close>

definition emptyDraft :: "int \<Rightarrow> Draft" where
  "emptyDraft now =
     \<lparr> id' = None,
       dateISO = iso now,
       carMake = [],
       carModel = [],
       reg = [],
       pickup = [],
       dropoff = [],
       distanceKm = JNum (Num 0),
       ratePerKm = JNum (Num 0),
       fixedFee = JNum (Num 0),
       transportExpense = JNum (Num 0),
       earnings = JNum (Num 0),
       status = pending,
       notes' = Some [] \<rparr>"

section \<open>What the specification says, in its own words\<close>

text \<open>
  Section 4.3: if the manual override is greater than zero, return it unchanged; otherwise
  return distance times rate plus fixed fee, every input that is not a number counting as zero.
\<close>

definition zeroIfNaN :: "jsnum \<Rightarrow> jsnum" where
  "zeroIfNaN n = (if n = NaN then Num 0 else n)"

definition spec_computeEarnings :: "jsval \<Rightarrow> jsval \<Rightarrow> jsval \<Rightarrow> jsval \<Rightarrow> jsval" where
  "spec_computeEarnings distance rate fee manualOverride =
     (if gt0 manualOverride then manualOverride
      else JNum (js_add (js_mul (zeroIfNaN (Number distance)) (zeroIfNaN (Number rate)))
                        (zeroIfNaN (Number fee))))"

text \<open>
  Section 8: the current calendar day computed from the device's local clock, in the form
  \<open>YYYY-MM-DD\<close> of the record dates.
\<close>

definition spec_localDay :: "int \<Rightarrow> int \<Rightarrow> string" where
  "spec_localDay tza now =
     (case civil_from_days (Day (now + tza)) of
        (y, m, d) \<Rightarrow> pad 4 y @ ''-'' @ pad 2 m @ ''-'' @ pad 2 d)"

section \<open>Conditions and examples\<close>

text \<open>The store does not reject the next call made to it.\<close>

definition accepts :: "AsyncStorage \<Rightarrow> bool" where
  "accepts st = (fst (next_fault st) = None)"

text \<open>A record with the given identifier and date, as a new form would leave the rest.\<close>

definition sample :: "string \<Rightarrow> string \<Rightarrow> Delivery" where
  "sample ident date = localRecord ((emptyDraft 0)\<lparr>dateISO := date\<rparr>) ident (JNum (Num 0))"

text \<open>
  A remote store that keeps the payload as it is and sends it back; a payload without
  identifier gets the given one.
\<close>

definition echo :: "string \<Rightarrow> Payload \<Rightarrow> DeliveryRow" where
  "echo fresh p =
     \<lparr> id_row = (case id_row p of None \<Rightarrow> fresh | Some i \<Rightarrow> i),
       user_id = user_id p,
       date_iso = date_iso p,
       car_make = car_make p,
       car_model = car_model p,
       reg_row = reg_row p,
       pickup_row = pickup_row p,
       dropoff_row = dropoff_row p,
       distance_km = distance_km p,
       rate_per_km = rate_per_km p,
       fixed_fee = fixed_fee p,
       transport_expense = transport_expense p,
       earnings_row = earnings_row p,
       status_row = status_row p,
       notes_row = notes_row p \<rparr>"

text \<open>An application state with the given records and user, an empty store and no notices.\<close>

definition appWith :: "Delivery list \<Rightarrow> string option \<Rightarrow> App" where
  "appWith list user =
     \<lparr> deliveries = list, session = user, storage = \<lparr> item = None, faults = [] \<rparr>, alerts = [] \<rparr>"

text \<open>A stand-in for \<open>JSON.stringify\<close> in the examples: the identifiers, in order.\<close>

definition idsText :: "Delivery list \<Rightarrow> string" where
  "idsText list = ''['' @ join (map id' list) @ '']''"

text \<open>The row the remote store would hold for \<open>sample ident date\<close>, owned by user \<open>u1\<close>.\<close>

definition sampleRow :: "string \<Rightarrow> string \<Rightarrow> DeliveryRow" where
  "sampleRow ident date =
     echo ident (draftToRow ((emptyDraft 0)\<lparr>dateISO := date\<rparr>) ''u1'' (JNum (Num 0)) None)"

text \<open>
  A stand-in for \<open>JSON.parse\<close> in the examples: it reads the empty array and takes every
  other text for malformed.
\<close>

definition parseEmptyArray :: "string \<Rightarrow> json option" where
  "parseEmptyArray text = (if text = ''[]'' then Some (JArray []) else None)"

text \<open>A remote store that cannot be reached.\<close>

definition offline :: "Payload \<Rightarrow> error + DeliveryRow" where
  "offline p = Inl (Error (Some ''offline''))"

text \<open>A filled-in draft, as the form's placeholders suggest one.\<close>

definition corollaDraft :: Draft where
  "corollaDraft =
     \<lparr> id' = None,
       dateISO = ''2025-08-11'',
       carMake = ''Toyota'',
       carModel = ''Corolla'',
       reg = ''AB12 CDE'',
       pickup = ''Wembley'',
       dropoff = ''Croydon'',
       distanceKm = JNum (Num 40),
       ratePerKm = JNum (Num (3 / 4)),
       fixedFee = JNum (Num 10),
       transportExpense = JNum (Num (7 / 2)),
       earnings = JNum (Num 0),
       status = completed,
       notes' = Some ''keys in glovebox'' \<rparr>"

section \<open>Sorting and merging\<close>

lemma mset_insert_cmp: "mset (insert_cmp cmp x xs) = add_mset x (mset xs)"
  by (induction xs) simp_all

lemma mset_array_sort: "mset (array_sort cmp xs) = mset xs"
  by (induction xs) (simp_all add: mset_insert_cmp)

lemma set_array_sort: "set (array_sort cmp xs) = set xs"
  using mset_array_sort [of cmp xs] by (metis set_mset_mset)

lemma set_insert_cmp: "set (insert_cmp cmp x xs) = insert x (set xs)"
  by (induction xs) auto

lemma byDateDesc_le0: "byDateDesc a b \<le> 0 \<longleftrightarrow> dateISO b \<le> dateISO a"
  by (auto simp: byDateDesc_def)

lemma sorted_insert_byDateDesc:
  "sorted_wrt (\<lambda>a b. dateISO b \<le> dateISO a) xs \<Longrightarrow>
   sorted_wrt (\<lambda>a b. dateISO b \<le> dateISO a) (insert_cmp byDateDesc x xs)"
proof (induction xs)
  case Nil
  then show ?case by simp
next
  case (Cons y ys)
  show ?case
  proof (cases "byDateDesc x y \<le> 0")
    case True
    then have "dateISO y \<le> dateISO x" by (simp add: byDateDesc_le0)
    with Cons.prems True show ?thesis by auto
  next
    case False
    then have "dateISO x \<le> dateISO y" by (simp add: byDateDesc_le0)
    with Cons False show ?thesis by (auto simp: set_insert_cmp)
  qed
qed

lemma sorted_sortByDateDesc: "sorted_wrt (\<lambda>a b. dateISO b \<le> dateISO a) (sortByDateDesc xs)"
  unfolding sortByDateDesc_def
  by (induction xs) (simp_all add: sorted_insert_byDateDesc)

lemma mset_sortByDateDesc: "mset (sortByDateDesc xs) = mset xs"
  by (simp add: sortByDateDesc_def mset_array_sort)

lemma set_sortByDateDesc: "set (sortByDateDesc xs) = set xs"
  by (simp add: sortByDateDesc_def set_array_sort)

lemma distinct_ids_sortByDateDesc: "distinct (map id' (sortByDateDesc xs)) = distinct (map id' xs)"
proof -
  have "mset (map id' (sortByDateDesc xs)) = mset (map id' xs)"
    by (simp add: mset_sortByDateDesc)
  then show ?thesis by (rule mset_eq_imp_distinct_iff)
qed

lemma mset_merge: "mset (merge r list) = add_mset r (filter_mset (\<lambda>d. id' d \<noteq> id' r) (mset list))"
  by (simp add: merge_def mset_sortByDateDesc)

lemma set_merge: "set (merge r list) = insert r {d \<in> set list. id' d \<noteq> id' r}"
  by (simp add: merge_def set_sortByDateDesc)

lemma sorted_merge: "sorted_wrt (\<lambda>a b. dateISO b \<le> dateISO a) (merge r list)"
  by (simp add: merge_def sorted_sortByDateDesc)

lemma distinct_ids_merge: "distinct (map id' list) \<Longrightarrow> distinct (map id' (merge r list))"
  by (auto simp: merge_def distinct_ids_sortByDateDesc distinct_map_filter)

lemma insert_cmp_front: "\<forall>y \<in> set ys. cmp x y \<le> 0 \<Longrightarrow> insert_cmp cmp x ys = x # ys"
  by (cases ys) simp_all

lemma sortByDateDesc_front:
  "\<forall>y \<in> set xs. dateISO y \<le> dateISO x \<Longrightarrow> sortByDateDesc (x # xs) = x # sortByDateDesc xs"
  by (simp add: sortByDateDesc_def insert_cmp_front set_array_sort byDateDesc_le0)


lemma sample_simps:
  "id' (sample i d) = i" "dateISO (sample i d) = d"
  by (simp_all add: sample_def localRecord_def)

section \<open>The store and the cache\<close>

lemma item_next_fault: "item (snd (next_fault st)) = item st"
  by (simp add: next_fault_def split: list.splits)

lemma setItem_accepted:
  "accepts st \<Longrightarrow> setItem v st = (Inr (), (snd (next_fault st))\<lparr>item := Some v\<rparr>)"
  by (cases "next_fault st") (simp add: accepts_def setItem_def)

lemma setItem_rejected:
  "fst (next_fault st) = Some e \<Longrightarrow> setItem v st = (Inl e, snd (next_fault st))"
  by (cases "next_fault st") (simp add: setItem_def)

lemma getItem_accepted: "accepts st \<Longrightarrow> getItem st = (Inr (item st), snd (next_fault st))"
  using item_next_fault [of st]
  by (cases "next_fault st") (simp add: accepts_def getItem_def)

lemma getItem_rejected: "fst (next_fault st) = Some e \<Longrightarrow> getItem st = (Inl e, snd (next_fault st))"
  by (cases "next_fault st") (simp add: getItem_def)

lemma save_accepted:
  "accepts (storage a) \<Longrightarrow>
   save S xs a = (Inr (), a\<lparr>storage := (snd (next_fault (storage a)))\<lparr>item := Some (S xs)\<rparr>\<rparr>)"
  by (simp add: save_def saveCache_def setItem_accepted)

lemma save_rejected:
  "fst (next_fault (storage a)) = Some e \<Longrightarrow>
   save S xs a = (Inl e, a\<lparr>storage := snd (next_fault (storage a))\<rparr>)"
  by (simp add: save_def saveCache_def setItem_rejected)

lemma save_frame:
  "deliveries (snd (save S xs a)) = deliveries a"
  "session (snd (save S xs a)) = session a"
  "alerts (snd (save S xs a)) = alerts a"
  by (simp_all add: save_def split: prod.splits)

lemma alert_frame:
  "deliveries (alert t e f a) = deliveries a"
  "session (alert t e f a) = session a"
  "storage (alert t e f a) = storage a"
  by (simp_all add: alert_def)

lemma alert_alerts:
  "alerts (alert t e f a) = alerts a @ [(t, case message e of None \<Rightarrow> f | Some m \<Rightarrow> m)]"
  by (simp add: alert_def)

lemma accepts_cases:
  obtains "accepts st" | e where "fst (next_fault st) = Some e"
  by (cases "fst (next_fault st)") (auto simp: accepts_def)

section \<open>The operations, path by path\<close>

lemma sync_logged_out: "session app = None \<Longrightarrow> syncFromRemote S select b app = app"
  by (simp add: syncFromRemote_def)

lemma sync_fetch_failed:
  "session app = Some u \<Longrightarrow> select u = Inl e \<Longrightarrow>
   syncFromRemote S select b app =
     (if b then alert ''Sync failed'' e ''Please try again later'' app else app)"
  by (simp add: syncFromRemote_def fetchDeliveries_def)

lemma sync_fetched_deliveries:
  "session app = Some u \<Longrightarrow> select u = Inr rows \<Longrightarrow>
   deliveries (syncFromRemote S select b app) = sortByDateDesc (map rowToDelivery rows)"
  using save_frame(1) [of S "sortByDateDesc (map rowToDelivery rows)"
      "app\<lparr>deliveries := sortByDateDesc (map rowToDelivery rows)\<rparr>"]
  by (auto simp: syncFromRemote_def fetchDeliveries_def Let_def alert_frame
      split: prod.splits sum.splits)

lemma sync_fetched_storage:
  "session app = Some u \<Longrightarrow> select u = Inr rows \<Longrightarrow> accepts (storage app) \<Longrightarrow>
   item (storage (syncFromRemote S select b app)) = Some (S (sortByDateDesc (map rowToDelivery rows)))"
  by (simp add: syncFromRemote_def fetchDeliveries_def Let_def save_accepted)

lemma localWrite_deliveries:
  "deliveries (snd (localWrite S input ident earned list a)) = merge (localRecord input ident earned) list"
proof -
  let ?next = "merge (localRecord input ident earned) list"
  obtain r a' where s: "save S ?next (a\<lparr>deliveries := ?next\<rparr>) = (r, a')"
    by (cases "save S ?next (a\<lparr>deliveries := ?next\<rparr>)")
  with save_frame(1) [of S ?next "a\<lparr>deliveries := ?next\<rparr>"] have "deliveries a' = ?next"
    by simp
  with s show ?thesis
    by (cases r) (simp_all add: localWrite_def Let_def)
qed

lemma localWrite_alerts:
  "alerts (snd (localWrite S input ident earned list a)) = alerts a"
proof -
  let ?next = "merge (localRecord input ident earned) list"
  obtain r a' where s: "save S ?next (a\<lparr>deliveries := ?next\<rparr>) = (r, a')"
    by (cases "save S ?next (a\<lparr>deliveries := ?next\<rparr>)")
  with save_frame(3) [of S ?next "a\<lparr>deliveries := ?next\<rparr>"] have "alerts a' = alerts a"
    by simp
  with s show ?thesis
    by (cases r) (simp_all add: localWrite_def Let_def)
qed

lemma localWrite_accepted:
  "accepts (storage a) \<Longrightarrow>
   localWrite S input ident earned list a =
     (Inr ident,
      a\<lparr>deliveries := merge (localRecord input ident earned) list,
        storage := (snd (next_fault (storage a)))
                     \<lparr>item := Some (S (merge (localRecord input ident earned) list))\<rparr>\<rparr>)"
  by (simp add: localWrite_def Let_def save_accepted)

lemma localWrite_returns:
  "fst (localWrite S input ident earned list a) = Inr i \<Longrightarrow> i = ident"
  by (auto simp: localWrite_def Let_def split: prod.splits sum.splits)

lemma upsert_logged_out:
  "session app = None \<Longrightarrow>
   upsertDelivery S uuid upsert input app =
     localWrite S input (case id' input of None \<Rightarrow> uuid | Some i \<Rightarrow> i) (computed input)
       (deliveries app) app"
  by (simp add: upsertDelivery_def Let_def)

lemma upsert_remote_failed:
  "session app = Some u \<Longrightarrow>
   upsert (draftToRow input u (computed input)
             (Some (case id' input of None \<Rightarrow> uuid | Some i \<Rightarrow> i))) = Inl e \<Longrightarrow>
   upsertDelivery S uuid upsert input app =
     localWrite S input (case id' input of None \<Rightarrow> uuid | Some i \<Rightarrow> i) (computed input)
       (deliveries app) (alert ''Save failed'' e ''Unable to save to Supabase'' app)"
  by (simp add: upsertDelivery_def Let_def)

lemma upsert_remote_saved:
  "session app = Some u \<Longrightarrow> accepts (storage app) \<Longrightarrow>
   upsert (draftToRow input u (computed input)
             (Some (case id' input of None \<Rightarrow> uuid | Some i \<Rightarrow> i))) = Inr row \<Longrightarrow>
   upsertDelivery S uuid upsert input app =
     (Inr (id' (rowToDelivery row)),
      app\<lparr>deliveries := merge (rowToDelivery row) (deliveries app),
          storage := (snd (next_fault (storage app)))
                       \<lparr>item := Some (S (merge (rowToDelivery row) (deliveries app)))\<rparr>\<rparr>)"
  by (simp add: upsertDelivery_def Let_def save_accepted)

lemma upsert_remote_saved_store_rejected:
  "session app = Some u \<Longrightarrow> fst (next_fault (storage app)) = Some e \<Longrightarrow>
   upsert (draftToRow input u (computed input)
             (Some (case id' input of None \<Rightarrow> uuid | Some i \<Rightarrow> i))) = Inr row \<Longrightarrow>
   upsertDelivery S uuid upsert input app =
     localWrite S input (case id' input of None \<Rightarrow> uuid | Some i \<Rightarrow> i) (computed input)
       (deliveries app)
       (alert ''Save failed'' e ''Unable to save to Supabase''
          (app\<lparr>deliveries := merge (rowToDelivery row) (deliveries app),
               storage := snd (next_fault (storage app))\<rparr>))"
  by (simp add: upsertDelivery_def Let_def save_rejected)

text \<open>
  Whatever the session, the remote store and the key-value store do, \<open>upsertDelivery\<close>
  leaves the merge of one record into the record set it started with, and an identifier it
  returns is that record's.
\<close>

lemma upsert_merges:
  "\<exists>r. deliveries (snd (upsertDelivery S uuid upsert input app)) = merge r (deliveries app) \<and>
       (r = localRecord input (case id' input of None \<Rightarrow> uuid | Some i \<Rightarrow> i) (computed input) \<or>
        (\<exists>u row. session app = Some u \<and>
           upsert (draftToRow input u (computed input)
                     (Some (case id' input of None \<Rightarrow> uuid | Some i \<Rightarrow> i))) = Inr row \<and>
           r = rowToDelivery row)) \<and>
       (\<forall>i. fst (upsertDelivery S uuid upsert input app) = Inr i \<longrightarrow> i = id' r)"
proof -
  let ?ident = "case id' input of None \<Rightarrow> uuid | Some i \<Rightarrow> i"
  let ?local = "localRecord input ?ident (computed input)"
  have local_id: "id' ?local = ?ident"
    by (simp add: localRecord_def)
  have viaLocal: "?thesis"
    if "upsertDelivery S uuid upsert input app = localWrite S input ?ident (computed input) (deliveries app) a"
    for a
    using that localWrite_deliveries [of S input ?ident "computed input" "deliveries app" a]
      localWrite_returns [of S input ?ident "computed input" "deliveries app" a] local_id
    by (intro exI [of _ ?local]) auto
  show ?thesis
  proof (cases "session app")
    case None
    from upsert_logged_out [OF None] show ?thesis by (rule viaLocal)
  next
    case (Some u)
    show ?thesis
    proof (cases "upsert (draftToRow input u (computed input) (Some ?ident))")
      case (Inl e)
      from upsert_remote_failed [where upsert = upsert and input = input and uuid = uuid, OF Some Inl] show ?thesis by (rule viaLocal)
    next
      case (Inr row)
      show ?thesis
      proof (cases rule: accepts_cases [of "storage app"])
        case 1
        from upsert_remote_saved [where upsert = upsert and input = input and uuid = uuid and S = S,
            OF Some 1 Inr] Some Inr show ?thesis
          by (intro exI [of _ "rowToDelivery row"]) simp
      next
        case (2 e)
        from upsert_remote_saved_store_rejected
          [where upsert = upsert and input = input and uuid = uuid, OF Some 2 Inr] show ?thesis by (rule viaLocal)
      qed
    qed
  qed
qed

lemma delete_deliveries:
  "deliveries (snd (deleteDelivery S delete ident app)) = filter (\<lambda>d. id' d \<noteq> ident) (deliveries app)"
  by (simp add: deleteDelivery_def Let_def save_frame)

lemma delete_accepted:
  "accepts (storage app) \<Longrightarrow>
   fst (deleteDelivery S delete ident app) = Inr () \<and>
   item (storage (snd (deleteDelivery S delete ident app)))
     = Some (S (filter (\<lambda>d. id' d \<noteq> ident) (deliveries app)))"
  by (simp add: deleteDelivery_def Let_def save_accepted alert_frame
      split: option.splits)

section \<open>Earnings\<close>

lemma StringToNumber_empty: "StringToNumber [] = Num 0"
  by (simp add: StringToNumber_def trim_def)

lemma gt0_truthy: "gt0 v \<Longrightarrow> truthy v"
proof (cases v)
  case (JNum n)
  assume "gt0 v"
  with JNum show ?thesis by (cases n) (simp_all add: gt0_def)
next
  case (JStr s)
  assume "gt0 v"
  with JStr show ?thesis by (cases "s = []") (simp_all add: gt0_def StringToNumber_empty)
qed (simp_all add: gt0_def split: if_splits)

lemma or0_zeroIfNaN: "or0 n = zeroIfNaN n"
  by (cases n) (simp_all add: or0_def zeroIfNaN_def)

lemma computeEarnings_eq_spec:
  "computeEarnings distance rate fee manualOverride = spec_computeEarnings distance rate fee manualOverride"
  using gt0_truthy [of manualOverride]
  by (auto simp: computeEarnings_def spec_computeEarnings_def or0_zeroIfNaN)

lemma StringToNumber_x: "StringToNumber ''x'' = NaN"
  by (simp add: StringToNumber_def trim_def isStrWhiteSpace_def nonDecimalInteger_def
      unsignedDecimal_def isDigitOf_def digitVal_def)

text \<open>A number is not negative: it is not less than zero (\<open>NaN\<close> is not).\<close>

lemma zeroIfNaN_not_negative: "\<not> js_lt n (Num 0) \<Longrightarrow> \<not> js_lt (zeroIfNaN n) (Num 0)"
  by (simp add: zeroIfNaN_def)

lemma js_mul_not_negative:
  "\<not> js_lt a (Num 0) \<Longrightarrow> \<not> js_lt b (Num 0) \<Longrightarrow> \<not> js_lt (js_mul a b) (Num 0)"
  by (cases a; cases b) (simp_all add: not_less mult_nonneg_nonneg)

lemma js_add_not_negative:
  "\<not> js_lt a (Num 0) \<Longrightarrow> \<not> js_lt b (Num 0) \<Longrightarrow> \<not> js_lt (js_add a b) (Num 0)"
  by (cases a; cases b) (simp_all add: not_less)

lemma gt0_not_negative: "gt0 v \<Longrightarrow> \<not> js_lt (Number v) (Num 0)"
  by (cases "Number v") (simp_all add: gt0_def)

lemma computeEarnings_not_negative:
  assumes "\<not> js_lt (Number distance) (Num 0)"
    and "\<not> js_lt (Number rate) (Num 0)"
    and "\<not> js_lt (Number fee) (Num 0)"
  shows "\<not> js_lt (Number (computeEarnings distance rate fee manualOverride)) (Num 0)"
proof (cases "gt0 manualOverride")
  case True
  then show ?thesis
    by (simp add: computeEarnings_eq_spec spec_computeEarnings_def gt0_not_negative)
next
  case False
  then show ?thesis
    using assms
    by (simp add: computeEarnings_eq_spec spec_computeEarnings_def zeroIfNaN_not_negative
        js_mul_not_negative js_add_not_negative)
qed

lemma Number_nullish0_negative:
  "js_lt (Number (nullish0 v)) (Num 0) \<longleftrightarrow> js_lt (Number v) (Num 0)"
  by (cases v) simp_all


section \<open>The merge rule\<close>

text \<open>
  C1. When the records of a list have pairwise distinct identifiers, merging a record into it
  (put it in front, drop the records that share its identifier, sort) gives a list with
  pairwise distinct identifiers, sorted by date from latest to earliest, that contains the
  merged record.
\<close>

theorem merge_rule:
  "distinct (map id' list) \<Longrightarrow>
   distinct (map id' (merge r list)) \<and>
   sorted_wrt (\<lambda>a b. dateISO b \<le> dateISO a) (merge r list) \<and>
   r \<in> set (merge r list)"
  by (simp add: distinct_ids_merge sorted_merge set_merge)

theorem merge_rule_witness:
  "distinct (map id' [sample ''a'' ''2025-08-10'', sample ''b'' ''2025-08-12'']) \<and>
   distinct (map id' (merge (sample ''a'' ''2025-08-11'')
                        [sample ''a'' ''2025-08-10'', sample ''b'' ''2025-08-12''])) \<and>
   sorted_wrt (\<lambda>a b. dateISO b \<le> dateISO a)
     (merge (sample ''a'' ''2025-08-11'') [sample ''a'' ''2025-08-10'', sample ''b'' ''2025-08-12'']) \<and>
   sample ''a'' ''2025-08-11'' \<in>
     set (merge (sample ''a'' ''2025-08-11'') [sample ''a'' ''2025-08-10'', sample ''b'' ''2025-08-12''])"
proof -
  have d: "distinct (map id' [sample ''a'' ''2025-08-10'', sample ''b'' ''2025-08-12''])"
    by (simp add: sample_simps)
  from d merge_rule [OF d, of "sample ''a'' ''2025-08-11''"] show ?thesis by simp
qed

section \<open>Synchronising, writing and deleting\<close>

lemma appWith_simps:
  "deliveries (appWith list user) = list"
  "session (appWith list user) = user"
  "storage (appWith list user) = \<lparr> item = None, faults = [] \<rparr>"
  "alerts (appWith list user) = []"
  by (simp_all add: appWith_def)

lemma accepts_no_faults: "accepts \<lparr> item = i, faults = [] \<rparr>"
  by (simp add: accepts_def next_fault_def)

lemma rowToDelivery_sampleRow: "rowToDelivery (sampleRow i d) = sample i d"
  by (simp add: rowToDelivery_def sampleRow_def echo_def draftToRow_def sample_def localRecord_def
      emptyDraft_def orEmpty_def or0_def)

text \<open>
  C3. With a user signed in: when the remote fetch of \<open>syncFromRemote(true)\<close> fails, the
  record set in memory and the store are what they were before the call and a notice is
  shown; when it succeeds, the record set in memory is the sorted remote set, and the cache
  holds that set as soon as the store accepts the write.
\<close>

theorem syncFromRemote_fail_soft:
  assumes "session app = Some u"
  shows "(\<forall>e. select u = Inl e \<longrightarrow>
            deliveries (syncFromRemote S select True app) = deliveries app \<and>
            storage (syncFromRemote S select True app) = storage app \<and>
            alerts (syncFromRemote S select True app)
              = alerts app @ [(''Sync failed'',
                   case message e of None \<Rightarrow> ''Please try again later'' | Some m \<Rightarrow> m)]) \<and>
         (\<forall>rows. select u = Inr rows \<longrightarrow>
            deliveries (syncFromRemote S select True app) = sortByDateDesc (map rowToDelivery rows) \<and>
            (accepts (storage app) \<longrightarrow>
               item (storage (syncFromRemote S select True app))
                 = Some (S (sortByDateDesc (map rowToDelivery rows)))))"
  using assms
  by (simp add: sync_fetch_failed alert_frame alert_alerts sync_fetched_deliveries
      sync_fetched_storage)

theorem syncFromRemote_fail_soft_witness:
  "session (appWith [sample ''a'' ''2025-08-10''] (Some ''u1'')) = Some ''u1'' \<and>
   deliveries (syncFromRemote idsText (\<lambda>u. Inl (Error None)) True
                 (appWith [sample ''a'' ''2025-08-10''] (Some ''u1'')))
     = [sample ''a'' ''2025-08-10''] \<and>
   storage (syncFromRemote idsText (\<lambda>u. Inl (Error None)) True
              (appWith [sample ''a'' ''2025-08-10''] (Some ''u1'')))
     = \<lparr> item = None, faults = [] \<rparr> \<and>
   deliveries (syncFromRemote idsText (\<lambda>u. Inr [sampleRow ''b'' ''2025-08-11'', sampleRow ''c'' ''2025-08-12'']) True
                 (appWith [sample ''a'' ''2025-08-10''] (Some ''u1'')))
     = [sample ''c'' ''2025-08-12'', sample ''b'' ''2025-08-11''] \<and>
   item (storage (syncFromRemote idsText (\<lambda>u. Inr [sampleRow ''b'' ''2025-08-11'', sampleRow ''c'' ''2025-08-12'']) True
                 (appWith [sample ''a'' ''2025-08-10''] (Some ''u1''))))
     = Some ''[c b]''"
proof -
  let ?app = "appWith [sample ''a'' ''2025-08-10''] (Some ''u1'')"
  have s: "session ?app = Some ''u1''"
    by (simp add: appWith_simps)
  have a: "accepts (storage ?app)"
    by (simp add: appWith_simps accepts_no_faults)
  have sorted: "sortByDateDesc (map rowToDelivery [sampleRow ''b'' ''2025-08-11'', sampleRow ''c'' ''2025-08-12''])
      = [sample ''c'' ''2025-08-12'', sample ''b'' ''2025-08-11'']"
    by (simp add: rowToDelivery_sampleRow sortByDateDesc_def byDateDesc_def sample_simps)
  have shown: "idsText [sample ''c'' ''2025-08-12'', sample ''b'' ''2025-08-11''] = ''[c b]''"
    by (simp add: idsText_def sample_simps)
  from syncFromRemote_fail_soft [OF s, of "\<lambda>u. Inl (Error None)" idsText]
    syncFromRemote_fail_soft [OF s,
      of "\<lambda>u. Inr [sampleRow ''b'' ''2025-08-11'', sampleRow ''c'' ''2025-08-12'']" idsText]
    s a sorted shown
  show ?thesis by (simp add: appWith_simps)
qed

lemma localRecord_fields:
  "localRecord input ident (computed input) =
     \<lparr> id' = ident,
       dateISO = dateISO input,
       carMake = carMake input,
       carModel = carModel input,
       reg = reg input,
       pickup = pickup input,
       dropoff = dropoff input,
       distanceKm = distanceKm input,
       ratePerKm = ratePerKm input,
       fixedFee = fixedFee input,
       transportExpense = transportExpense input,
       earnings = spec_computeEarnings (distanceKm input) (ratePerKm input) (fixedFee input)
                    (earnings input),
       status = status input,
       notes' = notes' input \<rparr>"
  by (simp add: localRecord_def computed_def computeEarnings_eq_spec)

text \<open>
  C4. With a user signed in, when the remote write of an upsert fails: the record \<open>r\<close> that
  has every field of the draft as the draft has it, the draft's identifier (the newly
  generated one if the draft had none) and the earnings the earnings rule gives for the
  draft is in the record set in memory, which holds \<open>r\<close> and exactly the records of the set
  before with another identifier and is sorted by date from latest to earliest; a notice is
  shown; and as soon as the store accepts the write, the cache holds that set and the
  operation returns the identifier.
\<close>

theorem upsert_remote_failure_keeps_edit:
  assumes "session app = Some u"
    and "ident = (case id' input of None \<Rightarrow> uuid | Some i \<Rightarrow> i)"
    and "upsert (draftToRow input u (computed input) (Some ident)) = Inl e"
    and "r = \<lparr> id' = ident,
               dateISO = dateISO input,
               carMake = carMake input,
               carModel = carModel input,
               reg = reg input,
               pickup = pickup input,
               dropoff = dropoff input,
               distanceKm = distanceKm input,
               ratePerKm = ratePerKm input,
               fixedFee = fixedFee input,
               transportExpense = transportExpense input,
               earnings = spec_computeEarnings (distanceKm input) (ratePerKm input)
                            (fixedFee input) (earnings input),
               status = status input,
               notes' = notes' input \<rparr>"
  shows "r \<in> set (deliveries (snd (upsertDelivery S uuid upsert input app))) \<and>
         mset (deliveries (snd (upsertDelivery S uuid upsert input app)))
           = add_mset r (filter_mset (\<lambda>d. id' d \<noteq> ident) (mset (deliveries app))) \<and>
         deliveries (snd (upsertDelivery S uuid upsert input app)) = merge r (deliveries app) \<and>
         sorted_wrt (\<lambda>a b. dateISO b \<le> dateISO a)
           (deliveries (snd (upsertDelivery S uuid upsert input app))) \<and>
         alerts (snd (upsertDelivery S uuid upsert input app))
           = alerts app @ [(''Save failed'',
                case message e of None \<Rightarrow> ''Unable to save to Supabase'' | Some m \<Rightarrow> m)] \<and>
         (accepts (storage app) \<longrightarrow>
            fst (upsertDelivery S uuid upsert input app) = Inr ident \<and>
            item (storage (snd (upsertDelivery S uuid upsert input app)))
              = Some (S (deliveries (snd (upsertDelivery S uuid upsert input app)))))"
proof -
  let ?a = "alert ''Save failed'' e ''Unable to save to Supabase'' app"
  have r: "localRecord input ident (computed input) = r"
    by (simp add: localRecord_fields assms(4))
  have i: "id' r = ident"
    by (simp add: assms(4))
  have R: "upsertDelivery S uuid upsert input app =
      localWrite S input ident (computed input) (deliveries app) ?a"
    using upsert_remote_failed [where upsert = upsert and input = input and uuid = uuid,
        OF assms(1) assms(3) [unfolded assms(2)]]
    by (simp add: assms(2))
  have D: "deliveries (snd (upsertDelivery S uuid upsert input app)) = merge r (deliveries app)"
    by (simp add: R localWrite_deliveries r)
  have A: "alerts (snd (upsertDelivery S uuid upsert input app))
      = alerts app @ [(''Save failed'',
           case message e of None \<Rightarrow> ''Unable to save to Supabase'' | Some m \<Rightarrow> m)]"
    by (simp add: R localWrite_alerts alert_alerts)
  have C: "accepts (storage app) \<longrightarrow>
      fst (upsertDelivery S uuid upsert input app) = Inr ident \<and>
      item (storage (snd (upsertDelivery S uuid upsert input app))) = Some (S (merge r (deliveries app)))"
  proof
    assume "accepts (storage app)"
    then have "accepts (storage ?a)"
      by (simp add: alert_frame)
    then show "fst (upsertDelivery S uuid upsert input app) = Inr ident \<and>
      item (storage (snd (upsertDelivery S uuid upsert input app))) = Some (S (merge r (deliveries app)))"
      by (simp add: R localWrite_accepted r)
  qed
  have M: "mset (merge r (deliveries app))
      = add_mset r (filter_mset (\<lambda>d. id' d \<noteq> ident) (mset (deliveries app)))"
    by (simp add: mset_merge i)
  from A C M show ?thesis
    by (simp add: D set_merge sorted_merge)
qed

theorem upsert_remote_failure_keeps_edit_witness:
  "session (appWith [sample ''a'' ''2025-08-10''] (Some ''u1'')) = Some ''u1'' \<and>
   accepts (storage (appWith [sample ''a'' ''2025-08-10''] (Some ''u1''))) \<and>
   offline (draftToRow corollaDraft ''u1'' (computed corollaDraft) (Some ''n1''))
     = Inl (Error (Some ''offline'')) \<and>
   fst (upsertDelivery idsText ''n1'' offline corollaDraft
          (appWith [sample ''a'' ''2025-08-10''] (Some ''u1''))) = Inr ''n1'' \<and>
   deliveries (snd (upsertDelivery idsText ''n1'' offline corollaDraft
          (appWith [sample ''a'' ''2025-08-10''] (Some ''u1''))))
     = [\<lparr> id' = ''n1'',
          dateISO = ''2025-08-11'',
          carMake = ''Toyota'',
          carModel = ''Corolla'',
          reg = ''AB12 CDE'',
          pickup = ''Wembley'',
          dropoff = ''Croydon'',
          distanceKm = JNum (Num 40),
          ratePerKm = JNum (Num (3 / 4)),
          fixedFee = JNum (Num 10),
          transportExpense = JNum (Num (7 / 2)),
          earnings = JNum (Num 40),
          status = completed,
          notes' = Some ''keys in glovebox'' \<rparr>,
        sample ''a'' ''2025-08-10''] \<and>
   item (storage (snd (upsertDelivery idsText ''n1'' offline corollaDraft
          (appWith [sample ''a'' ''2025-08-10''] (Some ''u1''))))) = Some ''[n1 a]'' \<and>
   alerts (snd (upsertDelivery idsText ''n1'' offline corollaDraft
          (appWith [sample ''a'' ''2025-08-10''] (Some ''u1'')))) = [(''Save failed'', ''offline'')]"
proof -
  let ?app = "appWith [sample ''a'' ''2025-08-10''] (Some ''u1'')"
  let ?r = "\<lparr> id' = ''n1'',
          dateISO = ''2025-08-11'',
          carMake = ''Toyota'',
          carModel = ''Corolla'',
          reg = ''AB12 CDE'',
          pickup = ''Wembley'',
          dropoff = ''Croydon'',
          distanceKm = JNum (Num 40),
          ratePerKm = JNum (Num (3 / 4)),
          fixedFee = JNum (Num 10),
          transportExpense = JNum (Num (7 / 2)),
          earnings = JNum (Num 40),
          status = completed,
          notes' = Some ''keys in glovebox'' \<rparr> :: Delivery"
  have s: "session ?app = Some ''u1''"
    by (simp add: appWith_simps)
  have i: "''n1'' = (case id' corollaDraft of None \<Rightarrow> ''n1'' | Some i \<Rightarrow> i)"
    by (simp add: corollaDraft_def)
  have f: "offline (draftToRow corollaDraft ''u1'' (computed corollaDraft) (Some ''n1''))
      = Inl (Error (Some ''offline''))"
    by (simp add: offline_def)
  have a: "accepts (storage ?app)"
    by (simp add: appWith_simps accepts_no_faults)
  have r: "?r = \<lparr> id' = ''n1'',
               dateISO = dateISO corollaDraft,
               carMake = carMake corollaDraft,
               carModel = carModel corollaDraft,
               reg = reg corollaDraft,
               pickup = pickup corollaDraft,
               dropoff = dropoff corollaDraft,
               distanceKm = distanceKm corollaDraft,
               ratePerKm = ratePerKm corollaDraft,
               fixedFee = fixedFee corollaDraft,
               transportExpense = transportExpense corollaDraft,
               earnings = spec_computeEarnings (distanceKm corollaDraft) (ratePerKm corollaDraft)
                            (fixedFee corollaDraft) (earnings corollaDraft),
               status = status corollaDraft,
               notes' = notes' corollaDraft \<rparr>"
    by (simp add: corollaDraft_def spec_computeEarnings_def gt0_def zeroIfNaN_def)
  have m: "merge ?r [sample ''a'' ''2025-08-10''] = [?r, sample ''a'' ''2025-08-10'']"
    by (simp add: merge_def sortByDateDesc_def byDateDesc_def sample_simps)
  have t: "idsText [?r, sample ''a'' ''2025-08-10''] = ''[n1 a]''"
    by (simp add: idsText_def sample_simps)
  from upsert_remote_failure_keeps_edit [where upsert = offline and S = idsText, OF s i f r] s a f
  show ?thesis by (simp add: m t appWith_simps)
qed

text \<open>
  C5. Whether the remote delete succeeds, fails or is skipped for want of a signed-in user,
  after \<open>deleteDelivery(id)\<close> the record set in memory is the set before without the records
  of that identifier, and it holds no record of that identifier; as soon as the store accepts
  the write, the operation completes and the cache holds that set.
\<close>

theorem deleteDelivery_local:
  "deliveries (snd (deleteDelivery S delete ident app))
     = filter (\<lambda>d. id' d \<noteq> ident) (deliveries app) \<and>
   ident \<notin> id' ` set (deliveries (snd (deleteDelivery S delete ident app))) \<and>
   (accepts (storage app) \<longrightarrow>
      fst (deleteDelivery S delete ident app) = Inr () \<and>
      item (storage (snd (deleteDelivery S delete ident app)))
        = Some (S (deliveries (snd (deleteDelivery S delete ident app)))))"
  by (auto simp: delete_deliveries delete_accepted)

theorem deleteDelivery_local_witness:
  "accepts (storage (appWith [sample ''a'' ''2025-08-10'', sample ''b'' ''2025-08-09''] (Some ''u1''))) \<and>
   accepts (storage (appWith [sample ''a'' ''2025-08-10'', sample ''b'' ''2025-08-09''] None)) \<and>
   deliveries (snd (deleteDelivery idsText (\<lambda>i u. Some (Error None)) ''a''
      (appWith [sample ''a'' ''2025-08-10'', sample ''b'' ''2025-08-09''] (Some ''u1''))))
     = [sample ''b'' ''2025-08-09''] \<and>
   item (storage (snd (deleteDelivery idsText (\<lambda>i u. Some (Error None)) ''a''
      (appWith [sample ''a'' ''2025-08-10'', sample ''b'' ''2025-08-09''] (Some ''u1'')))))
     = Some ''[b]'' \<and>
   deliveries (snd (deleteDelivery idsText (\<lambda>i u. None) ''a''
      (appWith [sample ''a'' ''2025-08-10'', sample ''b'' ''2025-08-09''] (Some ''u1''))))
     = [sample ''b'' ''2025-08-09''] \<and>
   item (storage (snd (deleteDelivery idsText (\<lambda>i u. None) ''a''
      (appWith [sample ''a'' ''2025-08-10'', sample ''b'' ''2025-08-09''] None))))
     = Some ''[b]''"
proof -
  let ?list = "[sample ''a'' ''2025-08-10'', sample ''b'' ''2025-08-09'']"
  have a: "accepts (storage (appWith ?list user))" for user
    by (simp add: appWith_simps accepts_no_faults)
  have t: "idsText [sample ''b'' ''2025-08-09''] = ''[b]''"
    by (simp add: idsText_def sample_simps)
  from deleteDelivery_local [of idsText "\<lambda>i u. Some (Error None)" "''a''" "appWith ?list (Some ''u1'')"]
    deleteDelivery_local [of idsText "\<lambda>i u. None" "''a''" "appWith ?list (Some ''u1'')"]
    deleteDelivery_local [of idsText "\<lambda>i u. None" "''a''" "appWith ?list None"]
    a [of "Some ''u1''"] a [of None]
  show ?thesis by (simp add: appWith_simps sample_simps t)
qed

text \<open>
  C6. When the store answers the read, \<open>loadCache\<close> returns a list and no error, and the
  list is empty when the key is absent and when the stored text is one that \<open>JSON.parse\<close>
  rejects. When the store rejects the read itself, \<open>loadCache\<close> is rejected with the same
  error: \<open>getItem\<close> is awaited outside the \<open>try\<close>.
\<close>

theorem loadCache_absent_or_corrupt:
  "(accepts st \<longrightarrow>
      (\<exists>list. fst (loadCache JSON_parse st) = Inr list) \<and>
      (item st = None \<longrightarrow> fst (loadCache JSON_parse st) = Inr []) \<and>
      (\<forall>text. item st = Some text \<and> JSON_parse text = None \<longrightarrow>
         fst (loadCache JSON_parse st) = Inr [])) \<and>
   (\<forall>e. fst (next_fault st) = Some e \<longrightarrow> fst (loadCache JSON_parse st) = Inl e)"
proof -
  have "fst (loadCache JSON_parse st) = Inl e" if "fst (next_fault st) = Some e" for e
    by (simp add: loadCache_def getItem_rejected [OF that])
  moreover have "(\<exists>list. fst (loadCache JSON_parse st) = Inr list) \<and>
      (item st = None \<longrightarrow> fst (loadCache JSON_parse st) = Inr []) \<and>
      (\<forall>text. item st = Some text \<and> JSON_parse text = None \<longrightarrow>
         fst (loadCache JSON_parse st) = Inr [])" if "accepts st"
    by (auto simp: loadCache_def getItem_accepted [OF that] split: option.splits json.splits)
  ultimately show ?thesis by blast
qed

theorem loadCache_absent_or_corrupt_witness:
  "accepts \<lparr> item = None, faults = [] \<rparr> \<and>
   fst (loadCache parseEmptyArray \<lparr> item = None, faults = [] \<rparr>) = Inr [] \<and>
   accepts \<lparr> item = Some ''[{\"id\":'', faults = [] \<rparr> \<and>
   parseEmptyArray ''[{\"id\":'' = None \<and>
   fst (loadCache parseEmptyArray \<lparr> item = Some ''[{\"id\":'', faults = [] \<rparr>) = Inr [] \<and>
   fst (next_fault \<lparr> item = Some ''[]'', faults = [Some (Error (Some ''disk''))] \<rparr>)
     = Some (Error (Some ''disk'')) \<and>
   fst (loadCache parseEmptyArray \<lparr> item = Some ''[]'', faults = [Some (Error (Some ''disk''))] \<rparr>)
     = Inl (Error (Some ''disk''))"
proof -
  have p: "parseEmptyArray ''[{\"id\":'' = None"
    by (simp add: parseEmptyArray_def)
  have n: "fst (next_fault \<lparr> item = Some ''[]'', faults = [Some (Error (Some ''disk''))] \<rparr>)
      = Some (Error (Some ''disk''))"
    by (simp add: next_fault_def)
  from loadCache_absent_or_corrupt [of "\<lparr> item = None, faults = [] \<rparr>" parseEmptyArray]
    loadCache_absent_or_corrupt [of "\<lparr> item = Some ''[{\"id\":'', faults = [] \<rparr>" parseEmptyArray]
    loadCache_absent_or_corrupt
      [of "\<lparr> item = Some ''[]'', faults = [Some (Error (Some ''disk''))] \<rparr>" parseEmptyArray]
    p n
  show ?thesis by (simp add: accepts_no_faults)
qed

text \<open>
  With the key absent and the read rejected, \<open>loadCache\<close> returns no list: it is rejected.
\<close>

theorem loadCache_raises_counterexample:
  "item \<lparr> item = None, faults = [Some (Error (Some ''disk''))] \<rparr> = None \<and>
   fst (loadCache parseEmptyArray \<lparr> item = None, faults = [Some (Error (Some ''disk''))] \<rparr>)
     = Inl (Error (Some ''disk''))"
  by (simp add: loadCache_def getItem_def next_fault_def)

section \<open>New records and what an upsert leaves alone\<close>

lemma merge_fresh:
  assumes "id' r \<notin> id' ` set list"
  shows "merge r list = sortByDateDesc (r # list)"
proof -
  have "filter (\<lambda>d. id' d \<noteq> id' r) list = list"
    using assms by (intro filter_True) (metis imageI)
  then show ?thesis by (simp add: merge_def)
qed

lemma merge_fresh_front:
  assumes "id' r \<notin> id' ` set list"
    and "\<forall>d \<in> set (merge r list). dateISO d \<le> dateISO r"
  shows "merge r list = r # sortByDateDesc list"
proof -
  from assms(2) have "\<forall>d \<in> set list. dateISO d \<le> dateISO r"
    by (simp add: merge_fresh [OF assms(1)] set_sortByDateDesc)
  then show ?thesis
    by (simp add: merge_fresh [OF assms(1)] sortByDateDesc_front)
qed

lemma id_localRecord: "id' (localRecord input ident earned) = ident"
  by (simp add: localRecord_def)


lemma id_rowToDelivery: "id' (rowToDelivery row) = id_row row"
  by (simp add: rowToDelivery_def)





text \<open>
  C10. On every path of \<open>upsertDelivery\<close>, whatever the remote store and the key-value store
  answer, there is one upserted record, the one built from the draft or the one mapped from
  the row the remote store returned: the set after holds it once, next to exactly the
  records of the set before whose identifier differs from its own, and an identifier that
  the operation returns is its identifier.
\<close>

theorem upsert_frame:
  "\<exists>r. (r = localRecord input (case id' input of None \<Rightarrow> uuid | Some i \<Rightarrow> i) (computed input) \<or>
         (\<exists>u row. session app = Some u \<and>
            upsert (draftToRow input u (computed input)
                      (Some (case id' input of None \<Rightarrow> uuid | Some i \<Rightarrow> i))) = Inr row \<and>
            r = rowToDelivery row)) \<and>
        mset (deliveries (snd (upsertDelivery S uuid upsert input app)))
          = add_mset r (filter_mset (\<lambda>d. id' d \<noteq> id' r) (mset (deliveries app))) \<and>
        set (deliveries (snd (upsertDelivery S uuid upsert input app)))
          = insert r {d \<in> set (deliveries app). id' d \<noteq> id' r} \<and>
        (\<forall>i. fst (upsertDelivery S uuid upsert input app) = Inr i \<longrightarrow> i = id' r)"
proof -
  from upsert_merges [of S uuid upsert input app]
  obtain r where r: "deliveries (snd (upsertDelivery S uuid upsert input app)) = merge r (deliveries app)"
    "r = localRecord input (case id' input of None \<Rightarrow> uuid | Some i \<Rightarrow> i) (computed input) \<or>
     (\<exists>u row. session app = Some u \<and>
        upsert (draftToRow input u (computed input)
                  (Some (case id' input of None \<Rightarrow> uuid | Some i \<Rightarrow> i))) = Inr row \<and>
        r = rowToDelivery row)"
    "\<forall>i. fst (upsertDelivery S uuid upsert input app) = Inr i \<longrightarrow> i = id' r"
    by blast
  show ?thesis
    using r(2,3) by (intro exI [of _ r]) (simp add: r(1) mset_merge set_merge)
qed

theorem upsert_frame_witness:
  "fst (upsertDelivery idsText ''n1'' offline
          ((emptyDraft 0)\<lparr>id' := Some ''a'', dateISO := ''2025-08-11''\<rparr>)
          (appWith [sample ''a'' ''2025-08-10'', sample ''b'' ''2025-08-12''] None)) = Inr ''a'' \<and>
   (\<exists>r. id' r = ''a'' \<and>
        set (deliveries (snd (upsertDelivery idsText ''n1'' offline
          ((emptyDraft 0)\<lparr>id' := Some ''a'', dateISO := ''2025-08-11''\<rparr>)
          (appWith [sample ''a'' ''2025-08-10'', sample ''b'' ''2025-08-12''] None))))
          = {r, sample ''b'' ''2025-08-12''})"
proof -
  let ?input = "(emptyDraft 0)\<lparr>id' := Some ''a'', dateISO := ''2025-08-11''\<rparr>"
  let ?list = "[sample ''a'' ''2025-08-10'', sample ''b'' ''2025-08-12'']"
  let ?R = "upsertDelivery idsText ''n1'' offline ?input (appWith ?list None)"
  have f: "fst ?R = Inr ''a''"
    by (simp add: upsert_logged_out appWith_simps localWrite_accepted accepts_no_faults)
  from upsert_frame [of ?input "''n1''" "appWith ?list None" offline idsText]
  obtain r where r: "set (deliveries (snd ?R)) = insert r {d \<in> set (deliveries (appWith ?list None)). id' d \<noteq> id' r}"
    "\<forall>i. fst ?R = Inr i \<longrightarrow> i = id' r"
    by blast
  from r(2) f have i: "id' r = ''a''"
    by simp
  have "{d \<in> set ?list. id' d \<noteq> ''a''} = {sample ''b'' ''2025-08-12''}"
    by (auto simp: sample_simps)
  with r(1) i have "set (deliveries (snd ?R)) = {r, sample ''b'' ''2025-08-12''}"
    by (simp add: appWith_simps)
  with f i show ?thesis by blast
qed

section \<open>Computed and mapped earnings\<close>

text \<open>
  C2. The earnings computed at the head of \<open>upsertDelivery\<close> are what the specification's
  \<open>computeEarnings\<close> says: the manual override itself when it is greater than zero, and
  otherwise distance times rate plus fixed fee, each input that \<open>Number\<close> does not read
  as a number counting as zero. In particular the three examples of the specification hold.
\<close>

theorem computeEarnings_as_specified:
  "computeEarnings distance rate fee manualOverride
     = spec_computeEarnings distance rate fee manualOverride \<and>
   computeEarnings (JNum (Num 10)) (JNum (Num 0.75)) (JNum (Num 5)) (JNum (Num 0)) = JNum (Num 12.5) \<and>
   computeEarnings (JNum (Num 10)) (JNum (Num 0.75)) (JNum (Num 5)) (JNum (Num 20)) = JNum (Num 20) \<and>
   computeEarnings (JStr ''x'') (JNum (Num 0.75)) (JNum (Num 5)) (JNum (Num 0)) = JNum (Num 5)"
proof -
  have "computeEarnings (JNum (Num 10)) (JNum (Num 0.75)) (JNum (Num 5)) (JNum (Num 0)) = JNum (Num 12.5)"
    by (simp add: computeEarnings_def gt0_def or0_def)
  moreover
  have "computeEarnings (JNum (Num 10)) (JNum (Num 0.75)) (JNum (Num 5)) (JNum (Num 20)) = JNum (Num 20)"
    by (simp add: computeEarnings_def gt0_def)
  moreover
  have "computeEarnings (JStr ''x'') (JNum (Num 0.75)) (JNum (Num 5)) (JNum (Num 0)) = JNum (Num 5)"
    by (simp add: computeEarnings_def gt0_def or0_def StringToNumber_x)
  ultimately show ?thesis
    using computeEarnings_eq_spec [of distance rate fee manualOverride] by blast
qed

text \<open>
  C7, as the code has it. The earnings of the record that an upsert builds from the draft are
  the draft's own earnings when those are greater than zero, and otherwise distance times
  rate plus fixed fee, each input that is not a number counting as zero; they are not
  negative whenever distance, rate and fixed fee are not negative. The earnings of a record
  mapped from a remote row are the row's earnings read as a number, 0 for \<open>null\<close>, and are
  negative exactly when the row's are.
\<close>

theorem earnings_derivation:
  "(gt0 (earnings input) \<longrightarrow> computed input = earnings input) \<and>
   (\<not> gt0 (earnings input) \<longrightarrow>
      computed input =
        JNum (js_add (js_mul (zeroIfNaN (Number (distanceKm input))) (zeroIfNaN (Number (ratePerKm input))))
                     (zeroIfNaN (Number (fixedFee input))))) \<and>
   (\<not> js_lt (Number (distanceKm input)) (Num 0) \<and>
    \<not> js_lt (Number (ratePerKm input)) (Num 0) \<and>
    \<not> js_lt (Number (fixedFee input)) (Num 0) \<longrightarrow>
      \<not> js_lt (Number (computed input)) (Num 0)) \<and>
   earnings (localRecord input ident (computed input)) = computed input \<and>
   earnings (rowToDelivery row) = JNum (Number (nullish0 (earnings_row row))) \<and>
   (js_lt (Number (earnings (rowToDelivery row))) (Num 0) \<longleftrightarrow> js_lt (Number (earnings_row row)) (Num 0))"
proof -
  have "computed input = spec_computeEarnings (distanceKm input) (ratePerKm input) (fixedFee input) (earnings input)"
    by (simp add: computed_def computeEarnings_eq_spec)
  moreover have "\<not> js_lt (Number (distanceKm input)) (Num 0) \<and>
      \<not> js_lt (Number (ratePerKm input)) (Num 0) \<and>
      \<not> js_lt (Number (fixedFee input)) (Num 0) \<longrightarrow>
      \<not> js_lt (Number (computed input)) (Num 0)"
    by (simp add: computed_def computeEarnings_not_negative)
  moreover have "earnings (rowToDelivery row) = JNum (Number (nullish0 (earnings_row row)))"
    by (simp add: rowToDelivery_def)
  ultimately show ?thesis
    by (simp add: spec_computeEarnings_def localRecord_def Number_nullish0_negative)
qed

theorem earnings_derivation_witness:
  "\<not> gt0 (earnings ((emptyDraft 0)\<lparr>distanceKm := JNum (Num 10), ratePerKm := JNum (Num 0.75),
                                    fixedFee := JNum (Num 5)\<rparr>)) \<and>
   computed ((emptyDraft 0)\<lparr>distanceKm := JNum (Num 10), ratePerKm := JNum (Num 0.75),
                            fixedFee := JNum (Num 5)\<rparr>) = JNum (Num 12.5) \<and>
   \<not> js_lt (Num 12.5) (Num 0) \<and>
   gt0 (earnings ((emptyDraft 0)\<lparr>earnings := JNum (Num 20)\<rparr>)) \<and>
   computed ((emptyDraft 0)\<lparr>earnings := JNum (Num 20)\<rparr>) = JNum (Num 20)"
proof -
  let ?a = "(emptyDraft 0)\<lparr>distanceKm := JNum (Num 10), ratePerKm := JNum (Num 0.75),
                          fixedFee := JNum (Num 5)\<rparr>"
  let ?b = "(emptyDraft 0)\<lparr>earnings := JNum (Num 20)\<rparr>"
  have a: "\<not> gt0 (earnings ?a)" and b: "gt0 (earnings ?b)"
    by (simp_all add: emptyDraft_def gt0_def)
  from earnings_derivation [of ?a] earnings_derivation [of ?b] a b
  show ?thesis
    by (simp add: emptyDraft_def zeroIfNaN_def)
qed

text \<open>
  Negative earnings do occur: from a draft with a negative distance and no manual figure, and
  from a remote row whose earnings are negative.
\<close>

theorem earnings_negative_counterexample:
  "map earnings (deliveries (snd (upsertDelivery idsText ''n1'' offline
      ((emptyDraft 0)\<lparr>distanceKm := JNum (Num (- 10)), ratePerKm := JNum (Num 1)\<rparr>)
      (appWith [] None)))) = [JNum (Num (- 10))] \<and>
   js_lt (Num (- 10)) (Num 0) \<and>
   earnings (rowToDelivery ((sampleRow ''a'' ''2025-08-10'')\<lparr>earnings_row := JStr ''-3''\<rparr>))
     = JNum (Num (- 3)) \<and>
   js_lt (Num (- 3)) (Num 0)"
proof -
  let ?input = "(emptyDraft 0)\<lparr>distanceKm := JNum (Num (- 10)), ratePerKm := JNum (Num 1)\<rparr>"
  have c: "computed ?input = JNum (Num (- 10))"
    by (simp add: computed_def computeEarnings_def emptyDraft_def gt0_def or0_def)
  have m: "merge r [] = [r]" for r
    by (simp add: merge_def sortByDateDesc_def)
  have u: "map earnings (deliveries (snd (upsertDelivery idsText ''n1'' offline ?input
      (appWith [] None)))) = [JNum (Num (- 10))]"
    by (simp add: upsert_logged_out appWith_simps localWrite_deliveries m c localRecord_def)
  have n: "StringToNumber ''-3'' = Num (- 3)"
    by (simp add: StringToNumber_def trim_def isStrWhiteSpace_def nonDecimalInteger_def
        unsignedDecimal_def isDigitOf_def digitVal_def digitsVal_def)
  have r: "earnings (rowToDelivery ((sampleRow ''a'' ''2025-08-10'')\<lparr>earnings_row := JStr ''-3''\<rparr>))
      = JNum (Num (- 3))"
    using n by (simp add: rowToDelivery_def)
  from u r show ?thesis by simp
qed

section \<open>The date filter\<close>

lemma filtered_today:
  "dateFilter ui = today \<Longrightarrow> trim (query ui) = [] \<Longrightarrow>
   filtered ui tza now list = filter (\<lambda>d. dateISO d = iso now) list"
  by (simp add: filtered_def toLowerCase_def)

lemma upt_small: "[0..<2] = [0, Suc 0]" "[0..<4] = [0, Suc 0, 2, 3]"
  by code_simp+

lemma pad2: "pad 2 n = [''0123456789'' ! ((nat n div 10) mod 10), ''0123456789'' ! (nat n mod 10)]"
  by (simp add: pad_def upt_small)

lemma pad4:
  "pad 4 n = [''0123456789'' ! ((nat n div 1000) mod 10), ''0123456789'' ! ((nat n div 100) mod 10),
              ''0123456789'' ! ((nat n div 10) mod 10), ''0123456789'' ! (nat n mod 10)]"
  by (simp add: pad_def upt_small)

lemma iso_common_era:
  assumes "civil_from_days (Day t) = (y, m, d)" and "0 \<le> y" and "y \<le> 9999"
  shows "iso t = pad 4 y @ ''-'' @ pad 2 m @ ''-'' @ pad 2 d"
  using assms by (simp add: iso_def toISOString_def pad2 pad4)

text \<open>
  On a device one hour ahead of UTC, at 2025-08-10T23:30:00Z, which is 00:30 on 11 August
  local time: \<open>iso\<close> gives 10 August.
\<close>

lemma civil_late_evening:
  "civil_from_days (Day 1754868600000) = (2025, 8, 10)"
  "civil_from_days (Day 1754872200000) = (2025, 8, 11)"
  by code_simp+

lemma iso_late_evening: "iso 1754868600000 = ''2025-08-10''"
  by (simp add: iso_common_era [OF civil_late_evening(1)] pad2 pad4)

lemma localDay_late_evening: "spec_localDay 3600000 1754868600000 = ''2025-08-11''"
  by (simp add: spec_localDay_def civil_late_evening(2) pad2 pad4)

text \<open>
  The month filter at the same moment: its bounds are taken at local midnight and then
  written out in UTC, which moves both one day back.
\<close>

lemma month_bounds_late_evening:
  "iso (newDate 3600000 (getFullYear 3600000 1754868600000) (getMonth 3600000 1754868600000) 1)
     = ''2025-07-31'' \<and>
   iso (newDate 3600000 (getFullYear 3600000 1754868600000) (getMonth 3600000 1754868600000 + 1) 0)
     = ''2025-08-30''"
proof -
  have y: "getFullYear 3600000 1754868600000 = 2025" and m: "getMonth 3600000 1754868600000 = 7"
    by (simp_all add: getFullYear_def getMonth_def YearFromTime_def MonthFromTime_def
        civil_late_evening(2))
  have s: "newDate 3600000 2025 7 1 = 1754002800000" and e: "newDate 3600000 2025 8 0 = 1756594800000"
    by code_simp+
  have cs: "civil_from_days (Day 1754002800000) = (2025, 7, 31)"
    and ce: "civil_from_days (Day 1756594800000) = (2025, 8, 30)"
    by code_simp+
  show ?thesis
    by (simp add: y m s e iso_common_era [OF cs] iso_common_era [OF ce] pad2 pad4)
qed

text \<open>
  C8. With the filter on \<open>today\<close> and no search text, at 00:30 local time on 11 August 2025
  on a device one hour ahead of UTC, the list on screen holds the record dated 10 August and
  not the record dated 11 August, the local calendar day.
\<close>

theorem today_filter_late_evening:
  "spec_localDay 3600000 1754868600000 = ''2025-08-11'' \<and>
   filtered \<lparr> query = [], dateFilter = today, customFrom = [], customTo = [] \<rparr> 3600000 1754868600000
     [sample ''a'' ''2025-08-11'', sample ''b'' ''2025-08-10'']
     = [sample ''b'' ''2025-08-10'']"
proof -
  have "filtered \<lparr> query = [], dateFilter = today, customFrom = [], customTo = [] \<rparr> 3600000 1754868600000
      [sample ''a'' ''2025-08-11'', sample ''b'' ''2025-08-10'']
      = filter (\<lambda>d. dateISO d = iso 1754868600000) [sample ''a'' ''2025-08-11'', sample ''b'' ''2025-08-10'']"
    by (rule filtered_today) (simp_all add: trim_def)
  then show ?thesis
    by (simp add: iso_late_evening localDay_late_evening sample_simps)
qed

end
